theory Spec2Isabelle
  imports Complex_Main "HOL-Library.Word"
begin

section \<open>Values of the Python run time\<close>

text \<open>
  The importer exists in two versions: \<^verbatim>\<open>src/app.py\<close> (constants prefixed \<open>app_\<close>)
  and the later \<^verbatim>\<open>app.py\<close> that \<^verbatim>\<open>src/recreate_project.py\<close> carries in
  \<^verbatim>\<open>PROJECT_FILES\<close> (constants prefixed \<open>rp_\<close>). Both are scripts: their
  variables are module globals, and the body of \<^verbatim>\<open>if st.button("Start Import")\<close> is
  the import run.

  Exceptions are values. \<^verbatim>\<open>except ValueError\<close> selects by class, every other
  handler of the two scripts catches all of them.
\<close>

datatype exn =
    ValueError string
  | TypeError string
  | NameError string
  | ZeroDivisionError
  | WKBReadingError string
  | OtherException string

fun is_ValueError :: "exn \<Rightarrow> bool" where
  "is_ValueError (ValueError _) = True"
| "is_ValueError _ = False"

text \<open>The three entries of the \<^verbatim>\<open>If Table Exists\<close> select box.\<close>

datatype policy = Fail | Replace | Append

datatype crs = EPSG nat | OtherCRS string

text \<open>A shapely geometry object, named by its well-known text.\<close>

datatype geometry = Geometry string

datatype pyval =
    PyBytes "8 word list"
  | PyNone
  | PyStr string
  | PyGeometry geometry
  | PyOther

fun is_bytes :: "pyval \<Rightarrow> bool" where
  "is_bytes (PyBytes _) = True"
| "is_bytes _ = False"

datatype dtype = DtypeObject | DtypeCategory | DtypeString | DtypeOther string

record series =
  s_dtype :: dtype
  s_values :: "pyval list"

text \<open>
  A pandas frame: its columns by name, and \<^verbatim>\<open>len(df)\<close>. Column names are taken to
  be distinct, so that \<^verbatim>\<open>df[name]\<close> is the first column of that name.
\<close>

record dataframe =
  columns :: "(string \<times> series) list"
  n_rows :: nat

record geoseries =
  gs_values :: "geometry option list"
  gs_crs :: "crs option"

record geodataframe =
  gdf_data :: dataframe
  gdf_geometry :: "geometry option list"
  gdf_crs :: "crs option"

text \<open>What the \<^verbatim>\<open>geometry=\<close> argument of the \<^verbatim>\<open>GeoDataFrame\<close> constructor is.\<close>

datatype geometry_arg = ByName string | BySeries series | ByGeoSeries geoseries

datatype chunk = Plain dataframe | Spatial geodataframe

text \<open>
  An Arrow record batch, as far as the scripts use it: what \<^verbatim>\<open>to_pandas()\<close> and
  \<^verbatim>\<open>to_pandas(ignore_metadata=True)\<close> give or raise.
\<close>

record record_batch =
  to_pandas :: "exn + dataframe"
  to_pandas_ignore_metadata :: "exn + dataframe"

text \<open>
  \<^verbatim>\<open>pq.ParquetFile\<close>: the row-group count, \<^verbatim>\<open>metadata.num_rows\<close> (\<open>None\<close> when
  absent) and the finite sequence \<^verbatim>\<open>iter_batches(batch_size=n)\<close> yields.
\<close>

record parquet_file =
  num_row_groups :: int
  num_rows :: "int option"
  iter_batches :: "nat \<Rightarrow> record_batch list"

text \<open>
  A Streamlit upload is a file object: it has \<^verbatim>\<open>seek\<close>, and \<open>uf_seek\<close> is what
  \<^verbatim>\<open>seek(0)\<close> raises on it, if anything.
\<close>

record uploaded_file =
  uf_name :: string
  uf_seek :: "exn option"

datatype source = Uploaded uploaded_file | Path string

datatype input_method = UploadFile | LocalFilePath

text \<open>The widgets' values when the button is pressed (lines 15 to 36 of both scripts).\<close>

record config =
  db_host :: string
  db_port :: string
  db_name :: string
  db_user :: string
  db_password :: string
  table_name :: string
  if_exists_opt :: policy
  input_method :: input_method
  uploaded_file :: "uploaded_file option"
  file_path :: "string option"

section \<open>Effects\<close>

datatype sink_method = ToPostgis | ToSql

record write_call =
  w_method :: sink_method
  w_chunk :: chunk
  w_table :: string
  w_engine :: string
  w_if_exists :: policy

text \<open>
  Every call that leaves the script is logged in order: the \<open>Ui\<close> events go to the
  Streamlit page, the \<open>Io\<close> events to the database, the file system or the upload.
  \<open>UiProgress\<close> carries \<^verbatim>\<open>min(rows_processed / total_rows, 1.0)\<close> as the exact
  quotient where Python rounds to a double. \<open>UiStatusOf r t\<close> is the status line of
  \<^verbatim>\<open>src/app.py\<close>, which shows both numbers, \<open>UiStatus r\<close> the later one.
\<close>

datatype event =
    UiError string
  | UiImportError exn
  | UiException exn
  | UiInfo int "int option"
  | UiProbeDetected string "crs option"
  | UiProgress rat
  | UiStatusOf int "int option"
  | UiStatus int
  | UiSuccess int string
  | IoCreateEngine string
  | IoEnablePostgis
  | IoProbeRead source
  | IoSeek
  | IoOpenParquet source
  | IoWrite write_call

fun is_io :: "event \<Rightarrow> bool" where
  "is_io (IoCreateEngine _) = True"
| "is_io IoEnablePostgis = True"
| "is_io (IoProbeRead _) = True"
| "is_io IoSeek = True"
| "is_io (IoOpenParquet _) = True"
| "is_io (IoWrite _) = True"
| "is_io _ = False"

text \<open>
  The libraries are parameters of the model. \<open>sink\<close> is \<^verbatim>\<open>to_postgis\<close> and
  \<^verbatim>\<open>to_sql\<close>: it takes the database to its next state and may raise, also after
  having written.
\<close>

record 'db library =
  create_engine :: "string \<Rightarrow> exn option"
  enable_postgis :: "'db \<Rightarrow> 'db \<times> exn option"
  gpd_read_parquet :: "source \<Rightarrow> nat option \<Rightarrow> exn + (bool \<times> string option \<times> crs option)"
  ParquetFile :: "source \<Rightarrow> exn + parquet_file"
  from_wkb :: "series \<Rightarrow> exn + geoseries"
  GeoDataFrame :: "dataframe \<Rightarrow> geometry_arg \<Rightarrow> exn + geodataframe"
  sink :: "'db \<Rightarrow> write_call \<Rightarrow> 'db \<times> exn option"

record 'db world =
  log :: "event list"
  db :: 'db

text \<open>
  The variables of the streaming loop. \<open>total_rows\<close> holds what Python holds: an
  integer or \<open>None\<close>. \<open>gdf_chunk\<close> is \<open>None\<close> while the name is unbound; only
  \<^verbatim>\<open>src/app.py\<close> can read it before it is assigned in the same pass, so the
  later script leaves the field alone.
\<close>

record 'db state = "'db world" +
  rows_processed :: int
  total_rows :: "int option"
  is_first_chunk :: bool
  gdf_chunk :: "geodataframe option"

text \<open>A statement either completes or raises; both leave a state behind.\<close>

datatype ('a, 's) outcome = Ok 'a | Raise exn 's

definition emit :: "event \<Rightarrow> ('db, 'z) world_scheme \<Rightarrow> ('db, 'z) world_scheme" where
  "emit e w = w\<lparr>log := log w @ [e]\<rparr>"

definition world_of :: "'db state \<Rightarrow> 'db world" where
  "world_of st = \<lparr>log = log st, db = db st\<rparr>"

definition init_state :: "'db world \<Rightarrow> int option \<Rightarrow> 'db state" where
  "init_state w n =
     \<lparr>log = log w, db = db w, rows_processed = 0, total_rows = n,
      is_first_chunk = True, gdf_chunk = None\<rparr>"

text \<open>
  \<^verbatim>\<open>GeoDataFrame.set_crs(crs, allow_override=..., inplace=True)\<close> as geopandas
  documents it: it raises when the frame has a different reference system and
  \<^verbatim>\<open>allow_override\<close> is false, and sets the reference system otherwise.
\<close>

definition set_crs :: "crs \<Rightarrow> bool \<Rightarrow> geodataframe \<Rightarrow> exn + geodataframe" where
  "set_crs c allow_override g =
     (case gdf_crs g of
        None \<Rightarrow> Inr (g\<lparr>gdf_crs := Some c\<rparr>)
      | Some old \<Rightarrow>
          if old = c \<or> allow_override then Inr (g\<lparr>gdf_crs := Some c\<rparr>)
          else Inl (ValueError ''The GeoSeries already has a CRS which is not equal to the passed CRS.''))"

text \<open>Python's \<^verbatim>\<open>a / b\<close> on integers.\<close>

definition py_truediv :: "int \<Rightarrow> int \<Rightarrow> exn + rat" where
  "py_truediv a b = (if b = 0 then Inl ZeroDivisionError else Inr (of_int a / of_int b))"

definition db_url :: "config \<Rightarrow> string" where
  "db_url cfg =
     ''postgresql://'' @ db_user cfg @ '':'' @ db_password cfg @ ''@'' @ db_host cfg
       @ '':'' @ db_port cfg @ ''/'' @ db_name cfg"

text \<open>Lines 45 to 49 of \<^verbatim>\<open>src/app.py\<close>, 49 to 53 of the later script.\<close>

definition determine_source :: "config \<Rightarrow> source option" where
  "determine_source cfg =
     (case (input_method cfg, uploaded_file cfg, file_path cfg) of
        (UploadFile, Some f, _) \<Rightarrow> Some (Uploaded f)
      | (UploadFile, None, _) \<Rightarrow> None
      | (LocalFilePath, _, Some p) \<Rightarrow> (if p = [] then None else Some (Path p))
      | (LocalFilePath, _, None) \<Rightarrow> None)"

text \<open>Lines 116 to 121 of \<^verbatim>\<open>src/app.py\<close>, 182 to 187 of the later script.\<close>

definition current_if_exists :: "config \<Rightarrow> 'db state \<Rightarrow> policy" where
  "current_if_exists cfg st = (if is_first_chunk st then if_exists_opt cfg else Append)"

definition write_chunk ::
  "'db library \<Rightarrow> config \<Rightarrow> bool \<Rightarrow> chunk \<Rightarrow> 'db state \<Rightarrow> ('db state, 'db state) outcome" where
  "write_chunk lib cfg is_spatial chunk_to_write st =
     (let call = \<lparr>w_method = (if is_spatial then ToPostgis else ToSql),
                  w_chunk = chunk_to_write, w_table = table_name cfg,
                  w_engine = db_url cfg, w_if_exists = current_if_exists cfg st\<rparr>;
          r = sink lib (db st) call;
          st1 = (emit (IoWrite call) st)\<lparr>db := fst r\<rparr>
      in case snd r of Some e \<Rightarrow> Raise e st1 | None \<Rightarrow> Ok st1)"

text \<open>The \<^verbatim>\<open>except Exception as e\<close> of the run: lines 135 to 137, and 201 to 203.\<close>

definition handler :: "exn \<Rightarrow> 'db world \<Rightarrow> 'db world" where
  "handler e w = emit (UiException e) (emit (UiImportError e) w)"

text \<open>
  How the loop leaves the \<^verbatim>\<open>try\<close> block: through \<^verbatim>\<open>st.success\<close> (line 133, and
  199) or through the handler.
\<close>

definition finish :: "config \<Rightarrow> ('db state, 'db state) outcome \<Rightarrow> 'db world" where
  "finish cfg r =
     (case r of
        Raise e st \<Rightarrow> handler e (world_of st)
      | Ok st \<Rightarrow> emit (UiSuccess (rows_processed st) (table_name cfg)) (world_of st))"

section \<open>\<^verbatim>\<open>src/app.py\<close>\<close>

text \<open>Lines 92 to 98: the decoding and its bare \<^verbatim>\<open>except\<close>.\<close>

definition app_try_from_wkb :: "'db library \<Rightarrow> dataframe \<Rightarrow> series \<Rightarrow> exn + geodataframe" where
  "app_try_from_wkb lib df_chunk col =
     (case (case from_wkb lib col of
              Inl e \<Rightarrow> Inl e
            | Inr gs \<Rightarrow> GeoDataFrame lib df_chunk (ByGeoSeries gs)) of
        Inr g \<Rightarrow> Inr g
      | Inl e \<Rightarrow> GeoDataFrame lib df_chunk (ByName ''geometry''))"

text \<open>Lines 104 and 105, also 177 and 178 of the later script.\<close>

definition default_crs :: "geodataframe \<Rightarrow> exn + geodataframe" where
  "default_crs g = (if gdf_crs g = None then set_crs (EPSG 4326) False g else Inr g)"

text \<open>
  Lines 81 to 109. The result is \<^verbatim>\<open>is_spatial\<close>, \<^verbatim>\<open>chunk_to_write\<close> and the
  binding of \<^verbatim>\<open>gdf_chunk\<close>. The branch for any other dtype is \<^verbatim>\<open>pass\<close>, so
  \<^verbatim>\<open>gdf_chunk\<close> is read as an earlier batch left it.
\<close>

definition app_normalize ::
  "'db library \<Rightarrow> geodataframe option \<Rightarrow> dataframe
     \<Rightarrow> exn + (bool \<times> chunk \<times> geodataframe option)" where
  "app_normalize lib gdf_var df_chunk =
     (case map_of (columns df_chunk) ''geometry'' of
        None \<Rightarrow> Inr (False, Plain df_chunk, gdf_var)
      | Some col \<Rightarrow>
          (case (if s_dtype col = DtypeObject \<or> s_dtype col = DtypeCategory
                 then map_sum id Some (app_try_from_wkb lib df_chunk col)
                 else Inr gdf_var) of
             Inl e \<Rightarrow> Inl e
           | Inr None \<Rightarrow> Inl (NameError ''name 'gdf_chunk' is not defined'')
           | Inr (Some g) \<Rightarrow>
               (case default_crs g of
                  Inl e \<Rightarrow> Inl e
                | Inr g' \<Rightarrow> Inr (True, Spatial g', Some g'))))"

text \<open>Lines 126 to 131.\<close>

definition app_update_progress :: "'db state \<Rightarrow> ('db state, 'db state) outcome" where
  "app_update_progress st =
     (case (case total_rows st of
              None \<Rightarrow> Inr st
            | Some t \<Rightarrow>
                if t = 0 then Inr st
                else (case py_truediv (rows_processed st) t of
                        Inl e \<Rightarrow> Inl e
                      | Inr q \<Rightarrow> Inr (emit (UiProgress (min q 1)) st))) of
        Inl e \<Rightarrow> Raise e st
      | Inr st1 \<Rightarrow> Ok (emit (UiStatusOf (rows_processed st1) (total_rows st1)) st1))"

text \<open>One pass through the loop body, lines 78 to 131.\<close>

definition app_process_batch ::
  "'db library \<Rightarrow> config \<Rightarrow> 'db state \<Rightarrow> record_batch \<Rightarrow> ('db state, 'db state) outcome" where
  "app_process_batch lib cfg st batch =
     (case to_pandas batch of
        Inl e \<Rightarrow> Raise e st
      | Inr df_chunk \<Rightarrow>
          (case app_normalize lib (gdf_chunk st) df_chunk of
             Inl e \<Rightarrow> Raise e st
           | Inr (is_spatial, chunk_to_write, gdf_var) \<Rightarrow>
               (case write_chunk lib cfg is_spatial chunk_to_write (st\<lparr>gdf_chunk := gdf_var\<rparr>) of
                  Raise e st1 \<Rightarrow> Raise e st1
                | Ok st1 \<Rightarrow>
                    app_update_progress
                      (st1\<lparr>rows_processed := rows_processed st1 + int (n_rows df_chunk),
                           is_first_chunk := False\<rparr>))))"

fun app_stream ::
  "'db library \<Rightarrow> config \<Rightarrow> 'db state \<Rightarrow> record_batch list \<Rightarrow> ('db state, 'db state) outcome" where
  "app_stream lib cfg st [] = Ok st"
| "app_stream lib cfg st (batch # batches) =
     (case app_process_batch lib cfg st batch of
        Raise e st1 \<Rightarrow> Raise e st1
      | Ok st1 \<Rightarrow> app_stream lib cfg st1 batches)"

text \<open>The \<^verbatim>\<open>try\<close> block, lines 54 to 137.\<close>

definition app_import :: "'db library \<Rightarrow> config \<Rightarrow> source \<Rightarrow> 'db world \<Rightarrow> 'db world" where
  "app_import lib cfg src w =
     (let w1 = emit (IoCreateEngine (db_url cfg)) w in
      case create_engine lib (db_url cfg) of
        Some e \<Rightarrow> handler e w1
      | None \<Rightarrow>
          (let w2 = emit (IoOpenParquet src) w1 in
           case ParquetFile lib src of
             Inl e \<Rightarrow> handler e w2
           | Inr pf \<Rightarrow>
               (let w3 = emit (UiInfo (num_row_groups pf) (num_rows pf)) w2 in
                finish cfg
                  (app_stream lib cfg (init_state w3 (num_rows pf)) (iter_batches pf 50000)))))"

text \<open>The body of the button, lines 38 to 139.\<close>

definition app_start_import :: "'db library \<Rightarrow> config \<Rightarrow> 'db world \<Rightarrow> 'db world" where
  "app_start_import lib cfg w =
     (if db_name cfg = [] \<or> db_user cfg = []
      then emit (UiError ''Please fill in Database Connection details in the sidebar.'') w
      else (case determine_source cfg of
              Some src \<Rightarrow> app_import lib cfg src w
            | None \<Rightarrow> emit (UiError ''Please provide a valid file.'') w))"

section \<open>The later script, in \<^verbatim>\<open>src/recreate_project.py\<close>\<close>

text \<open>What the probe step leaves in its three variables (lines 69 to 71).\<close>

record probe =
  is_spatial_file :: bool
  detected_geometry_col :: "string option"
  detected_crs :: "crs option"

definition probe_unknown :: probe where
  "probe_unknown = \<lparr>is_spatial_file = False, detected_geometry_col = None, detected_crs = None\<rparr>"

text \<open>
  Lines 73 to 88. A path is read with \<^verbatim>\<open>rows=1\<close>, an upload whole. The handler
  rewinds a source that has \<^verbatim>\<open>seek\<close>; the call stands in the handler unguarded, so
  what it raises leaves the probe step.
\<close>

definition rp_probe ::
  "'db library \<Rightarrow> source \<Rightarrow> 'db world \<Rightarrow> (probe \<times> 'db world, 'db world) outcome" where
  "rp_probe lib src w =
     (let w1 = emit (IoProbeRead src) w in
      case gpd_read_parquet lib src (case src of Path _ \<Rightarrow> Some 1 | Uploaded _ \<Rightarrow> None) of
        Inr (is_geodataframe, active_geometry_name, probe_crs) \<Rightarrow>
          if is_geodataframe
          then (let col = (case active_geometry_name of
                             None \<Rightarrow> ''geometry''
                           | Some n \<Rightarrow> if n = [] then ''geometry'' else n)
                in Ok (\<lparr>is_spatial_file = True, detected_geometry_col = Some col,
                         detected_crs = probe_crs\<rparr>,
                       emit (UiProbeDetected col probe_crs) w1))
          else Ok (probe_unknown, w1)
      | Inl probe_error \<Rightarrow>
          (case src of
             Path _ \<Rightarrow> Ok (probe_unknown, w1)
           | Uploaded f \<Rightarrow>
               (case uf_seek f of
                  Some e \<Rightarrow> Raise e (emit IoSeek w1)
                | None \<Rightarrow> Ok (probe_unknown, emit IoSeek w1))))"

text \<open>Lines 104 to 110.\<close>

definition rp_total_rows :: "int option \<Rightarrow> int option" where
  "rp_total_rows n =
     (case n of
        None \<Rightarrow> Some 1
      | Some t \<Rightarrow> if t \<noteq> 0 \<and> t > 0 then Some t else Some 1)"

text \<open>Lines 116 to 126.\<close>

definition rp_to_pandas :: "record_batch \<Rightarrow> exn + dataframe" where
  "rp_to_pandas batch =
     (case to_pandas batch of
        Inr df \<Rightarrow> Inr df
      | Inl e \<Rightarrow>
          if is_ValueError e then to_pandas_ignore_metadata batch
          else (case to_pandas_ignore_metadata batch of
                  Inr df \<Rightarrow> Inr df
                | Inl _ \<Rightarrow> Inl e))"

text \<open>Lines 149 to 156: only the first value of the column is looked at.\<close>

definition first_val :: "series \<Rightarrow> pyval" where
  "first_val col_data = (case s_values col_data of v # _ \<Rightarrow> v | [] \<Rightarrow> PyNone)"

definition geometry_objects :: "'db library \<Rightarrow> series \<Rightarrow> exn + geometry_arg" where
  "geometry_objects lib col_data =
     (if is_bytes (first_val col_data)
      then map_sum id ByGeoSeries (from_wkb lib col_data)
      else Inr (BySeries col_data))"

text \<open>Lines 140 to 161.\<close>

definition rp_to_geodataframe ::
  "'db library \<Rightarrow> string \<Rightarrow> dataframe \<Rightarrow> series \<Rightarrow> exn + geodataframe" where
  "rp_to_geodataframe lib col_name df_chunk col_data =
     (if s_dtype col_data = DtypeObject \<or> s_dtype col_data = DtypeCategory
         \<or> s_dtype col_data = DtypeString
      then (case geometry_objects lib col_data of
              Inl e \<Rightarrow> Inl e
            | Inr arg \<Rightarrow> GeoDataFrame lib df_chunk arg)
      else GeoDataFrame lib df_chunk (ByName col_name))"

text \<open>Lines 164 to 168.\<close>

definition rp_apply_crs :: "crs option \<Rightarrow> geodataframe \<Rightarrow> exn + geodataframe" where
  "rp_apply_crs detected g =
     (case detected of
        Some c \<Rightarrow> set_crs c True g
      | None \<Rightarrow> default_crs g)"

text \<open>The column the probe named, when this batch has it (line 132).\<close>

definition probed_column :: "probe \<Rightarrow> dataframe \<Rightarrow> (string \<times> series) option" where
  "probed_column pr df_chunk =
     (if is_spatial_file pr
      then (case detected_geometry_col pr of
              None \<Rightarrow> None
            | Some c \<Rightarrow> map_option (Pair c) (map_of (columns df_chunk) c))
      else None)"

text \<open>Line 176, the fallback on a column named \<^verbatim>\<open>geometry\<close>.\<close>

definition rp_heuristic :: "'db library \<Rightarrow> dataframe \<Rightarrow> series \<Rightarrow> exn + geodataframe" where
  "rp_heuristic lib df_chunk col =
     (case from_wkb lib col of
        Inl e \<Rightarrow> Inl e
      | Inr gs \<Rightarrow> GeoDataFrame lib df_chunk (ByGeoSeries gs))"

text \<open>Lines 128 to 179: \<^verbatim>\<open>chunk_is_spatial\<close> and \<^verbatim>\<open>chunk_to_write\<close>.\<close>

definition rp_normalize :: "'db library \<Rightarrow> probe \<Rightarrow> dataframe \<Rightarrow> exn + (bool \<times> chunk)" where
  "rp_normalize lib pr df_chunk =
     (case probed_column pr df_chunk of
        Some (c, col_data) \<Rightarrow>
          (case rp_to_geodataframe lib c df_chunk col_data of
             Inl e \<Rightarrow> Inl e
           | Inr g \<Rightarrow>
               (case rp_apply_crs (detected_crs pr) g of
                  Inl e \<Rightarrow> Inl e
                | Inr g' \<Rightarrow> Inr (True, Spatial g')))
      | None \<Rightarrow>
          (case map_of (columns df_chunk) ''geometry'' of
             Some col \<Rightarrow>
               (case rp_heuristic lib df_chunk col of
                  Inl e \<Rightarrow> Inl e
                | Inr g \<Rightarrow>
                    (case default_crs g of
                       Inl e \<Rightarrow> Inl e
                     | Inr g' \<Rightarrow> Inr (True, Spatial g')))
           | None \<Rightarrow> Inr (False, Plain df_chunk)))"

text \<open>
  Lines 192 to 197. \<^verbatim>\<open>total_rows > 1\<close> on \<open>None\<close> is a \<^verbatim>\<open>TypeError\<close> in Python.
\<close>

definition rp_update_progress :: "'db state \<Rightarrow> ('db state, 'db state) outcome" where
  "rp_update_progress st =
     (case (case total_rows st of
              None \<Rightarrow> Inl (TypeError ''> not supported between instances of NoneType and int'')
            | Some t \<Rightarrow>
                if t > 1
                then (case py_truediv (rows_processed st) t of
                        Inl e \<Rightarrow> Inl e
                      | Inr q \<Rightarrow> Inr (emit (UiProgress (min q 1)) st))
                else Inr st) of
        Inl e \<Rightarrow> Raise e st
      | Inr st1 \<Rightarrow> Ok (emit (UiStatus (rows_processed st1)) st1))"

text \<open>One pass through the loop body, lines 116 to 197.\<close>

definition rp_process_batch ::
  "'db library \<Rightarrow> config \<Rightarrow> probe \<Rightarrow> 'db state \<Rightarrow> record_batch
     \<Rightarrow> ('db state, 'db state) outcome" where
  "rp_process_batch lib cfg pr st batch =
     (case rp_to_pandas batch of
        Inl e \<Rightarrow> Raise e st
      | Inr df_chunk \<Rightarrow>
          (case rp_normalize lib pr df_chunk of
             Inl e \<Rightarrow> Raise e st
           | Inr (chunk_is_spatial, chunk_to_write) \<Rightarrow>
               (case write_chunk lib cfg chunk_is_spatial chunk_to_write st of
                  Raise e st1 \<Rightarrow> Raise e st1
                | Ok st1 \<Rightarrow>
                    rp_update_progress
                      (st1\<lparr>rows_processed := rows_processed st1 + int (n_rows df_chunk),
                           is_first_chunk := False\<rparr>))))"

fun rp_stream ::
  "'db library \<Rightarrow> config \<Rightarrow> probe \<Rightarrow> 'db state \<Rightarrow> record_batch list
     \<Rightarrow> ('db state, 'db state) outcome" where
  "rp_stream lib cfg pr st [] = Ok st"
| "rp_stream lib cfg pr st (batch # batches) =
     (case rp_process_batch lib cfg pr st batch of
        Raise e st1 \<Rightarrow> Raise e st1
      | Ok st1 \<Rightarrow> rp_stream lib cfg pr st1 batches)"

text \<open>The streaming step, lines 90 to 199, once the probe has left \<open>pr\<close>.\<close>

definition rp_streaming :: "'db library \<Rightarrow> config \<Rightarrow> source \<Rightarrow> probe \<Rightarrow> 'db world \<Rightarrow> 'db world" where
  "rp_streaming lib cfg src pr w =
     (let w1 = emit (IoOpenParquet src) w in
      case ParquetFile lib src of
        Inl e \<Rightarrow> handler e w1
      | Inr pf \<Rightarrow>
          (let w2 = emit (UiInfo (num_row_groups pf) (num_rows pf)) w1 in
           finish cfg
             (rp_stream lib cfg pr (init_state w2 (rp_total_rows (num_rows pf)))
                (iter_batches pf 50000))))"

text \<open>The \<^verbatim>\<open>try\<close> block, lines 58 to 203.\<close>

definition rp_import :: "'db library \<Rightarrow> config \<Rightarrow> source \<Rightarrow> 'db world \<Rightarrow> 'db world" where
  "rp_import lib cfg src w =
     (let w1 = emit (IoCreateEngine (db_url cfg)) w in
      case create_engine lib (db_url cfg) of
        Some e \<Rightarrow> handler e w1
      | None \<Rightarrow>
          (let r = enable_postgis lib (db w1);
               w2 = (emit IoEnablePostgis w1)\<lparr>db := fst r\<rparr>
           in case snd r of
                Some e \<Rightarrow> handler e w2
              | None \<Rightarrow>
                  (case rp_probe lib src w2 of
                     Raise e w3 \<Rightarrow> handler e w3
                   | Ok (pr, w3) \<Rightarrow> rp_streaming lib cfg src pr w3)))"

text \<open>The body of the button, lines 42 to 205.\<close>

definition rp_start_import :: "'db library \<Rightarrow> config \<Rightarrow> 'db world \<Rightarrow> 'db world" where
  "rp_start_import lib cfg w =
     (if db_name cfg = [] \<or> db_user cfg = [] \<or> db_password cfg = []
      then emit (UiError ''Please fill in Database Connection details in the sidebar (Host, User, Password, DB Name).'') w
      else (case determine_source cfg of
              Some src \<Rightarrow> rp_import lib cfg src w
            | None \<Rightarrow> emit (UiError ''Please provide a valid file.'') w))"

section \<open>Reading a run off its log\<close>

fun writes :: "event list \<Rightarrow> write_call list" where
  "writes [] = []"
| "writes (IoWrite c # es) = c # writes es"
| "writes (_ # es) = writes es"

definition policies :: "event list \<Rightarrow> policy list" where
  "policies es = map w_if_exists (writes es)"

text \<open>The values of \<^verbatim>\<open>rows_processed\<close> shown on the status line, in order.\<close>

fun statuses :: "event list \<Rightarrow> int list" where
  "statuses [] = []"
| "statuses (UiStatusOf r _ # es) = r # statuses es"
| "statuses (UiStatus r # es) = r # statuses es"
| "statuses (_ # es) = statuses es"

text \<open>The divisors the status line of \<^verbatim>\<open>src/app.py\<close> shows for \<^verbatim>\<open>total_rows\<close>.\<close>

fun shown_totals :: "event list \<Rightarrow> int option list" where
  "shown_totals [] = []"
| "shown_totals (UiStatusOf _ t # es) = t # shown_totals es"
| "shown_totals (_ # es) = shown_totals es"

fun cumulative :: "int \<Rightarrow> int list \<Rightarrow> int list" where
  "cumulative a [] = []"
| "cumulative a (x # xs) = (a + x) # cumulative (a + x) xs"

text \<open>\<^verbatim>\<open>len(df_chunk)\<close> of a batch, in either script; 0 where the conversion raises.\<close>

definition app_rows :: "record_batch \<Rightarrow> int" where
  "app_rows batch = (case to_pandas batch of Inr df \<Rightarrow> int (n_rows df) | Inl _ \<Rightarrow> 0)"

definition rp_rows :: "record_batch \<Rightarrow> int" where
  "rp_rows batch = (case rp_to_pandas batch of Inr df \<Rightarrow> int (n_rows df) | Inl _ \<Rightarrow> 0)"

fun final_state :: "('s, 's) outcome \<Rightarrow> 's" where
  "final_state (Ok s) = s"
| "final_state (Raise e s) = s"

fun raised :: "('a, 's) outcome \<Rightarrow> exn option" where
  "raised (Ok _) = None"
| "raised (Raise e _) = Some e"

section \<open>A concrete environment\<close>

text \<open>
  A small library, batches and configurations on which the theorems below are run. The
  decoder knows one value, the little-endian well-known binary of \<open>POINT (1 2)\<close>, and
  rejects every other byte string; the constructor accepts geometry objects and nulls,
  as geopandas does; the destination is the number of rows it holds, and the sink fails
  once that number has reached \<open>limit\<close>.
\<close>

definition wkb_point_1_2 :: "8 word list" where
  "wkb_point_1_2 = [1, 1, 0, 0, 0, 0, 0, 0, 0, 0, 0, 240, 63, 0, 0, 0, 0, 0, 0, 0, 64]"

fun fx_decode :: "pyval list \<Rightarrow> exn + geometry option list" where
  "fx_decode [] = Inr []"
| "fx_decode (PyNone # vs) = map_sum id (Cons None) (fx_decode vs)"
| "fx_decode (PyBytes bs # vs) =
     (if bs = wkb_point_1_2
      then map_sum id (Cons (Some (Geometry ''POINT (1 2)''))) (fx_decode vs)
      else Inl (WKBReadingError ''Could not create geometry because of errors while reading input.''))"
| "fx_decode (_ # vs) = Inl (TypeError ''Expected bytes or string'')"

definition fx_from_wkb :: "series \<Rightarrow> exn + geoseries" where
  "fx_from_wkb col = map_sum id (\<lambda>gs. \<lparr>gs_values = gs, gs_crs = None\<rparr>) (fx_decode (s_values col))"

fun fx_geometries :: "pyval list \<Rightarrow> exn + geometry option list" where
  "fx_geometries [] = Inr []"
| "fx_geometries (PyNone # vs) = map_sum id (Cons None) (fx_geometries vs)"
| "fx_geometries (PyGeometry g # vs) = map_sum id (Cons (Some g)) (fx_geometries vs)"
| "fx_geometries (_ # vs) = Inl (TypeError ''Input must be valid geometry objects'')"

definition fx_of_series :: "dataframe \<Rightarrow> series \<Rightarrow> exn + geodataframe" where
  "fx_of_series df s =
     map_sum id (\<lambda>gs. \<lparr>gdf_data = df, gdf_geometry = gs, gdf_crs = None\<rparr>)
       (fx_geometries (s_values s))"

definition fx_GeoDataFrame :: "dataframe \<Rightarrow> geometry_arg \<Rightarrow> exn + geodataframe" where
  "fx_GeoDataFrame df arg =
     (case arg of
        ByGeoSeries gs \<Rightarrow> Inr \<lparr>gdf_data = df, gdf_geometry = gs_values gs, gdf_crs = gs_crs gs\<rparr>
      | BySeries s \<Rightarrow> fx_of_series df s
      | ByName n \<Rightarrow>
          (case map_of (columns df) n of
             None \<Rightarrow> Inl (ValueError ''Unknown column'')
           | Some s \<Rightarrow> fx_of_series df s))"

fun chunk_rows :: "chunk \<Rightarrow> nat" where
  "chunk_rows (Plain df) = n_rows df"
| "chunk_rows (Spatial g) = n_rows (gdf_data g)"

definition fx_sink :: "nat \<Rightarrow> nat \<Rightarrow> write_call \<Rightarrow> nat \<times> exn option" where
  "fx_sink limit rows c =
     (if limit \<le> rows then (rows, Some (OtherException ''connection lost''))
      else (rows + chunk_rows (w_chunk c), None))"

definition fx_library ::
  "(exn + (bool \<times> string option \<times> crs option)) \<Rightarrow> parquet_file \<Rightarrow> nat \<Rightarrow> nat library" where
  "fx_library probed pf limit =
     \<lparr>create_engine = (\<lambda>url. None),
      enable_postgis = (\<lambda>rows. (rows, None)),
      gpd_read_parquet = (\<lambda>src rows. probed),
      ParquetFile = (\<lambda>src. Inr pf),
      from_wkb = fx_from_wkb,
      GeoDataFrame = fx_GeoDataFrame,
      sink = fx_sink limit\<rparr>"

definition fx_batch :: "dataframe \<Rightarrow> record_batch" where
  "fx_batch df = \<lparr>to_pandas = Inr df, to_pandas_ignore_metadata = Inr df\<rparr>"

text \<open>A frame of \<open>n\<close> rows with one integer column.\<close>

definition fx_plain :: "nat \<Rightarrow> dataframe" where
  "fx_plain n =
     \<lparr>columns = [(''id'', \<lparr>s_dtype = DtypeOther ''int64'', s_values = replicate n PyOther\<rparr>)],
      n_rows = n\<rparr>"

text \<open>A frame with an integer column and a column \<open>name\<close> of the given dtype and values.\<close>

definition fx_geo :: "string \<Rightarrow> dtype \<Rightarrow> pyval list \<Rightarrow> dataframe" where
  "fx_geo name dt vs =
     \<lparr>columns = [(''id'', \<lparr>s_dtype = DtypeOther ''int64'', s_values = replicate (length vs) PyOther\<rparr>),
                 (name, \<lparr>s_dtype = dt, s_values = vs\<rparr>)],
      n_rows = length vs\<rparr>"

definition fx_file :: "int option \<Rightarrow> dataframe list \<Rightarrow> parquet_file" where
  "fx_file n dfs = \<lparr>num_row_groups = 1, num_rows = n, iter_batches = (\<lambda>size. map fx_batch dfs)\<rparr>"

definition fx_config :: "policy \<Rightarrow> config" where
  "fx_config p =
     \<lparr>db_host = ''192.168.1.2'', db_port = ''5432'', db_name = ''spatial'', db_user = ''hart'',
      db_password = ''secret'', table_name = ''imported_data'', if_exists_opt = p,
      input_method = LocalFilePath, uploaded_file = None,
      file_path = Some ''/mnt/data/big_file.parquet''\<rparr>"

definition fx_world :: "nat world" where
  "fx_world = \<lparr>log = [], db = 0\<rparr>"

text \<open>No probe result: \<^verbatim>\<open>gpd.read_parquet\<close> raises.\<close>

definition fx_no_probe :: "exn + (bool \<times> string option \<times> crs option)" where
  "fx_no_probe = Inl (ValueError ''Missing geo metadata in Parquet/Feather file.'')"

section \<open>The first value decides the decoding\<close>

lemma first_val_empty: "s_values col = [] \<Longrightarrow> \<not> is_bytes (first_val col)"
  by (simp add: first_val_def)

lemma first_val_null: "s_values col = PyNone # vs \<Longrightarrow> \<not> is_bytes (first_val col)"
  by (simp add: first_val_def)

text \<open>
  C10. On the path the probe opened, a geometry column of dtype object, category or
  string whose first value is not a bytes object (a null in row 0, an empty batch) goes
  to the \<^verbatim>\<open>GeoDataFrame\<close> constructor as it is: the decoder is not called, whatever
  the later values are, so the result does not depend on the decoder at all.
\<close>

theorem first_val_decides_decoding:
  assumes "probed_column pr df = Some (c, col)"
    and "s_dtype col = DtypeObject \<or> s_dtype col = DtypeCategory \<or> s_dtype col = DtypeString"
    and "\<not> is_bytes (first_val col)"
  shows "geometry_objects lib col = Inr (BySeries col)
    \<and> rp_to_geodataframe lib c df col = GeoDataFrame lib df (BySeries col)
    \<and> rp_normalize lib pr df =
        (case GeoDataFrame lib df (BySeries col) of
           Inl e \<Rightarrow> Inl e
         | Inr g \<Rightarrow>
             (case rp_apply_crs (detected_crs pr) g of
                Inl e \<Rightarrow> Inl e
              | Inr g' \<Rightarrow> Inr (True, Spatial g')))
    \<and> rp_normalize (lib\<lparr>from_wkb := decoder\<rparr>) pr df = rp_normalize lib pr df"
proof -
  have g: "geometry_objects l col = Inr (BySeries col)" for l :: "'a library"
    using assms(3) by (simp add: geometry_objects_def)
  have t: "rp_to_geodataframe l c df col = GeoDataFrame l df (BySeries col)" for l :: "'a library"
    using assms(2) g [of l] by (auto simp: rp_to_geodataframe_def)
  have n: "rp_normalize l pr df =
        (case GeoDataFrame l df (BySeries col) of
           Inl e \<Rightarrow> Inl e
         | Inr g \<Rightarrow>
             (case rp_apply_crs (detected_crs pr) g of
                Inl e \<Rightarrow> Inl e
              | Inr g' \<Rightarrow> Inr (True, Spatial g')))" for l :: "'a library"
    using assms(1) t [of l] by (simp add: rp_normalize_def)
  have "rp_normalize (lib\<lparr>from_wkb := decoder\<rparr>) pr df = rp_normalize lib pr df"
    by (simp add: n)
  with g t n show ?thesis by simp
qed

text \<open>
  A null in row 0 followed by a valid well-known binary value: the column reaches the
  constructor undecoded, and the constructor rejects the bytes.
\<close>

theorem first_val_decides_decoding_witness:
  "probed_column \<lparr>is_spatial_file = True, detected_geometry_col = Some ''geom'', detected_crs = None\<rparr>
      (fx_geo ''geom'' DtypeObject [PyNone, PyBytes wkb_point_1_2])
     = Some (''geom'', \<lparr>s_dtype = DtypeObject, s_values = [PyNone, PyBytes wkb_point_1_2]\<rparr>)
   \<and> \<not> is_bytes (first_val \<lparr>s_dtype = DtypeObject, s_values = [PyNone, PyBytes wkb_point_1_2]\<rparr>)
   \<and> rp_normalize (fx_library fx_no_probe (fx_file None []) 10)
        \<lparr>is_spatial_file = True, detected_geometry_col = Some ''geom'', detected_crs = None\<rparr>
        (fx_geo ''geom'' DtypeObject [PyNone, PyBytes wkb_point_1_2])
     = Inl (TypeError ''Input must be valid geometry objects'')"
proof -
  let ?pr = "\<lparr>is_spatial_file = True, detected_geometry_col = Some ''geom'', detected_crs = None\<rparr>"
  let ?col = "\<lparr>s_dtype = DtypeObject, s_values = [PyNone, PyBytes wkb_point_1_2]\<rparr>"
  let ?df = "fx_geo ''geom'' DtypeObject [PyNone, PyBytes wkb_point_1_2]"
  have h1: "probed_column ?pr ?df = Some (''geom'', ?col)"
    by (simp add: probed_column_def fx_geo_def)
  have h2: "s_dtype ?col = DtypeObject \<or> s_dtype ?col = DtypeCategory \<or> s_dtype ?col = DtypeString"
    by simp
  have h3: "\<not> is_bytes (first_val ?col)"
    by (simp add: first_val_def)
  show ?thesis
    using h1 h3 first_val_decides_decoding [OF h1 h2 h3, of "fx_library fx_no_probe (fx_file None []) 10"]
    by (simp add: fx_library_def fx_GeoDataFrame_def fx_of_series_def)
qed


end
